theory Spec2Isabelle
  imports Main
begin

section \<open>External collaborators of package tunnel\<close>

text \<open>
  The resolver of \<^verbatim>\<open>package tunnel\<close> (\<^verbatim>\<open>makeRunConfig\<close>, \<^verbatim>\<open>parseSSHConf\<close>,
  \<^verbatim>\<open>validate\<close>, \<^verbatim>\<open>makeClientConfig\<close>, \<^verbatim>\<open>sshConfigPath\<close>, \<^verbatim>\<open>fillHome\<close>) talks to
  the operating system and to three libraries. A Go \<^verbatim>\<open>error\<close> is modelled by the
  text its \<^verbatim>\<open>Error()\<close> method returns, which is what \<^verbatim>\<open>%v\<close> prints.
\<close>

type_synonym err = string

text \<open>
  A decoded \<^verbatim>\<open>ssh_config.Config\<close>, seen through its only use, \<^verbatim>\<open>Get(alias, key)\<close>:
  the first value the file gives for the key in a block matching the alias, if any.
\<close>

type_synonym sshConfig = "string \<Rightarrow> string \<Rightarrow> string option"

text \<open>
  \<^verbatim>\<open>sshConf.Get(alias, key)\<close>: the value, or the empty string when none is found.
  The source drops the error that comes with it.
\<close>

definition config_Get :: "sshConfig \<Rightarrow> string \<Rightarrow> string \<Rightarrow> string" where
  "config_Get c alias key = (case c alias key of None \<Rightarrow> [] | Some v \<Rightarrow> v)"

datatype signer = Signer string

datatype hostKeyCallback = HostKeyCallback string

text \<open>
  Everything outside the package that a resolution consults: the \<^verbatim>\<open>HOME\<close> variable,
  \<^verbatim>\<open>os.Open\<close> (the opened file is its contents), \<^verbatim>\<open>ssh_config.Decode\<close>,
  \<^verbatim>\<open>os.ReadFile\<close>, \<^verbatim>\<open>ssh.ParsePrivateKey\<close>, \<^verbatim>\<open>knownhosts.New\<close> and
  \<^verbatim>\<open>filepath.Join\<close>. Each fallible call returns \<open>Inl\<close> of its error or \<open>Inr\<close> of
  its value.
\<close>

record world =
  HOME :: string
  os_Open :: "string \<Rightarrow> err + string"
  ssh_config_Decode :: "string \<Rightarrow> err + sshConfig"
  os_ReadFile :: "string \<Rightarrow> err + string"
  ssh_ParsePrivateKey :: "string \<Rightarrow> err + signer"
  knownhosts_New :: "string \<Rightarrow> err + hostKeyCallback"
  filepath_Join :: "string list \<Rightarrow> string"

subsection \<open>The diagnostic sink (package log)\<close>

text \<open>
  \<^verbatim>\<open>log.Warningf\<close> formats its message and writes one line at level WARNING to the
  package's writer. The sink is the sequence of messages written so far, each with its
  level; the time stamp and the colour codes of the line are left out.
\<close>

datatype level = DEBUG | INFO | WARNING | ERROR | FATAL

type_synonym sink = "(level \<times> string) list"

definition Warningf :: "string \<Rightarrow> sink \<Rightarrow> sink" where
  "Warningf message s = s @ [(WARNING, message)]"

subsection \<open>strings and strconv\<close>

definition strings_HasPrefix :: "string \<Rightarrow> string \<Rightarrow> bool" where
  "strings_HasPrefix s pre = (take (length pre) s = pre)"

fun strings_Contains :: "string \<Rightarrow> string \<Rightarrow> bool" where
  "strings_Contains [] sub = (sub = [])"
| "strings_Contains (c # cs) sub =
     (strings_HasPrefix (c # cs) sub \<or> strings_Contains cs sub)"

text \<open>
  \<^verbatim>\<open>strconv.Atoi(s)\<close> is \<^verbatim>\<open>ParseInt(s, 10, 0)\<close> converted to \<^verbatim>\<open>int\<close>; \<^verbatim>\<open>int\<close> has
  64 bits. \<^verbatim>\<open>ParseUint\<close> reads the digits from the left: a byte that is not a decimal
  digit ends it with a syntax error and the value 0; a digit that would take the value
  past \<open>2^64 - 1\<close> ends it at once with a range error and the value \<open>2^64 - 1\<close>, the
  rest of the text unread. \<^verbatim>\<open>ParseInt\<close> picks off one leading sign, and on a range
  error, or a magnitude that does not fit 64 signed bits, returns the extreme value of
  that sign.
\<close>

datatype numError = ErrSyntax | ErrRange

definition isDigit :: "char \<Rightarrow> bool" where
  "isDigit c = (48 \<le> (of_char c :: nat) \<and> (of_char c :: nat) \<le> 57)"

definition digitVal :: "char \<Rightarrow> nat" where
  "digitVal c = of_char c - 48"

definition maxUint64 :: nat where
  "maxUint64 = 2 ^ 64 - 1"

fun parseUintLoop :: "nat \<Rightarrow> string \<Rightarrow> nat \<times> numError option" where
  "parseUintLoop n [] = (n, None)"
| "parseUintLoop n (c # cs) =
     (if \<not> isDigit c then (0, Some ErrSyntax)
      else if n \<ge> maxUint64 div 10 + 1 then (maxUint64, Some ErrRange)
      else if n * 10 + digitVal c > maxUint64 then (maxUint64, Some ErrRange)
      else parseUintLoop (n * 10 + digitVal c) cs)"

definition strconv_ParseUint :: "string \<Rightarrow> nat \<times> numError option" where
  "strconv_ParseUint s = (if s = [] then (0, Some ErrSyntax) else parseUintLoop 0 s)"

definition strconv_ParseInt :: "string \<Rightarrow> int \<times> numError option" where
  "strconv_ParseInt s0 =
     (if s0 = [] then (0, Some ErrSyntax)
      else
        let neg = (hd s0 = CHR ''-'');
            s = (if hd s0 = CHR ''+'' \<or> hd s0 = CHR ''-'' then tl s0 else s0);
            (un, e) = strconv_ParseUint s
        in if e = Some ErrSyntax then (0, e)
           else if \<not> neg \<and> un \<ge> 2 ^ 63 then (2 ^ 63 - 1, Some ErrRange)
           else if neg \<and> un > 2 ^ 63 then (- (2 ^ 63), Some ErrRange)
           else (if neg then - int un else int un, None))"

definition strconv_Atoi :: "string \<Rightarrow> int \<times> numError option" where
  "strconv_Atoi s = strconv_ParseInt s"

section \<open>Package tunnel\<close>

definition sshPort :: int where
  "sshPort = 22"

text \<open>\<^verbatim>\<open>sshConnTimeout = 10 * time.Second\<close>, a \<^verbatim>\<open>time.Duration\<close> in nanoseconds.\<close>

definition sshConnTimeout :: int where
  "sshConnTimeout = 10 * 1000000000"

definition defaultKeys :: "string list" where
  "defaultKeys = [''~/.ssh/id_rsa'', ''~/.ssh/id_ecdsa'', ''~/.ssh/id_ed25519'']"

text \<open>
  The fields of \<^verbatim>\<open>ssh.ClientConfig\<close> that \<^verbatim>\<open>makeClientConfig\<close> sets; \<open>cc_Auth\<close> is the
  signer list handed to \<^verbatim>\<open>ssh.PublicKeys\<close>.
\<close>

record ClientConfig =
  cc_User :: string
  cc_Auth :: "signer list"
  cc_HostKeyCallback :: hostKeyCallback
  cc_Timeout :: int

record runConfig =
  localAddress :: string
  remoteAddress :: string
  hostName :: string
  user :: string
  port :: int
  identityFile :: string
  clientConfig :: "ClientConfig option"

text \<open>The zero value \<^verbatim>\<open>runConfig{}\<close>.\<close>

definition runConfig0 :: runConfig where
  "runConfig0 = \<lparr>localAddress = [], remoteAddress = [], hostName = [], user = [],
     port = 0, identityFile = [], clientConfig = None\<rparr>"

text \<open>
  The fields of \<^verbatim>\<open>Tunnel\<close> that the resolver reads, and \<open>rc\<close>, which it sets.
  \<open>Port\<close> is a Go \<^verbatim>\<open>int\<close>: the source assigns it to \<^verbatim>\<open>rc.port\<close>.
\<close>

record Tunnel =
  Host :: string
  User :: string
  Port :: int
  IdentityFile :: string
  LocalAddress :: string
  RemoteAddress :: string
  rc :: "runConfig option"

definition sshConfigPath :: "world \<Rightarrow> string \<Rightarrow> string" where
  "sshConfigPath w filename = filepath_Join w [HOME w, ''.ssh'', filename]"

definition fillHome :: "world \<Rightarrow> string \<Rightarrow> string" where
  "fillHome w path =
     (if path = ''~'' then HOME w
      else if strings_HasPrefix path ''~/'' then filepath_Join w [HOME w, drop 2 path]
      else path)"

text \<open>
  \<^verbatim>\<open>parseSSHConf(alias, rc)\<close>: a file that does not open leaves \<^verbatim>\<open>rc\<close> as it is and
  is no error; a file that does not decode is an error; otherwise the four fields are
  overwritten with what \<^verbatim>\<open>Get\<close> returns, the port through \<^verbatim>\<open>strconv.Atoi\<close> with its
  error dropped.
\<close>

definition parseSSHConf :: "world \<Rightarrow> string \<Rightarrow> runConfig \<Rightarrow> err + runConfig" where
  "parseSSHConf w alias r =
     (case os_Open w (sshConfigPath w ''config'') of
        Inl e \<Rightarrow> Inr r
      | Inr sshConfFile \<Rightarrow>
          (case ssh_config_Decode w sshConfFile of
             Inl e \<Rightarrow> Inl (''could not decode ssh config: '' @ e)
           | Inr sshConf \<Rightarrow>
               Inr (r\<lparr>identityFile := config_Get sshConf alias ''IdentityFile'',
                      user := config_Get sshConf alias ''User'',
                      port := fst (strconv_Atoi (config_Get sshConf alias ''Port'')),
                      hostName := config_Get sshConf alias ''HostName''\<rparr>)))"

definition validate :: "runConfig \<Rightarrow> err option" where
  "validate r =
     (if hostName r = [] then Some ''no host specified.''
      else if user r = [] then Some ''no user specified.''
      else if port r = 0 then Some ''no port specified.''
      else None)"

text \<open>
  The loop of \<^verbatim>\<open>makeClientConfig\<close> over the candidate paths, with the signers
  collected so far and the sink.
\<close>

fun scanKeys :: "world \<Rightarrow> string list \<Rightarrow> signer list \<Rightarrow> sink \<Rightarrow> signer list \<times> sink" where
  "scanKeys w [] signers s = (signers, s)"
| "scanKeys w (i # is) signers s =
     (case os_ReadFile w (fillHome w i) of
        Inl e \<Rightarrow> scanKeys w is signers s
      | Inr key \<Rightarrow>
          (case ssh_ParsePrivateKey w key of
             Inl e \<Rightarrow>
               scanKeys w is signers
                 (Warningf (''Unable to parse private key '' @ i @ '': '' @ e) s)
           | Inr sg \<Rightarrow> scanKeys w is (signers @ [sg]) s))"

definition makeClientConfig ::
  "world \<Rightarrow> sink \<Rightarrow> string \<Rightarrow> string \<Rightarrow> sink \<times> (err + ClientConfig)" where
  "makeClientConfig w s usr idf =
     (let identityFiles = [idf] @ defaultKeys;
          (signers, s') = scanKeys w identityFiles [] s
      in if length signers = 0 then (s', Inl ''no key files found.'')
         else
           (case knownhosts_New w (sshConfigPath w ''known_hosts'') of
              Inl e \<Rightarrow> (s', Inl e)
            | Inr knownHostsCallback \<Rightarrow>
                (s', Inr \<lparr>cc_User = usr, cc_Auth = signers,
                          cc_HostKeyCallback = knownHostsCallback,
                          cc_Timeout = sshConnTimeout\<rparr>)))"

subsection \<open>makeRunConfig, block by block\<close>

text \<open>"Override values which were manually set by user".\<close>

definition overrideFields :: "Tunnel \<Rightarrow> runConfig \<Rightarrow> runConfig" where
  "overrideFields t r0 =
     (let r1 = (if User t \<noteq> [] then r0\<lparr>user := User t\<rparr> else r0);
          r2 = (if Port t \<noteq> 0 then r1\<lparr>port := Port t\<rparr> else r1)
      in if IdentityFile t \<noteq> [] then r2\<lparr>identityFile := IdentityFile t\<rparr> else r2)"

text \<open>
  "If port is still not set, use default" and "If t.Host could not be resolved from ssh
  config, take it literally".
\<close>

definition defaultFields :: "Tunnel \<Rightarrow> runConfig \<Rightarrow> runConfig" where
  "defaultFields t r0 =
     (let r1 = (if port r0 = 0 then r0\<lparr>port := sshPort\<rparr> else r0)
      in if hostName r1 = [] then r1\<lparr>hostName := Host t\<rparr> else r1)"

text \<open>The local address: \<^verbatim>\<open>localhost:\<close> is put in front when it has no colon.\<close>

definition qualifyLocalAddress :: "string \<Rightarrow> string" where
  "qualifyLocalAddress a =
     (if \<not> strings_Contains a '':'' then ''localhost:'' @ a else a)"

text \<open>
  From the call of \<^verbatim>\<open>makeClientConfig\<close> to the end: its error is wrapped; otherwise the
  client configuration and the two addresses are stored and \<^verbatim>\<open>t.rc\<close> is set.
\<close>

definition finishRunConfig ::
  "Tunnel \<Rightarrow> runConfig \<Rightarrow> sink \<times> (err + ClientConfig) \<Rightarrow> sink \<times> (err + Tunnel)" where
  "finishRunConfig t r res =
     (case res of
        (s', Inl e) \<Rightarrow> (s', Inl (''could not make client config: '' @ e))
      | (s', Inr cc) \<Rightarrow>
          (s', Inr (t\<lparr>rc := Some (r\<lparr>clientConfig := Some cc,
                                     remoteAddress := RemoteAddress t,
                                     localAddress := qualifyLocalAddress (LocalAddress t)\<rparr>)\<rparr>)))"

text \<open>
  \<^verbatim>\<open>makeRunConfig\<close> with the function it calls for the client configuration as a
  parameter, so that one can say when that function is consulted. The result is the
  sink, and the error or the tunnel with \<^verbatim>\<open>rc\<close> set.
\<close>

definition makeRunConfig_with ::
  "(world \<Rightarrow> sink \<Rightarrow> string \<Rightarrow> string \<Rightarrow> sink \<times> (err + ClientConfig)) \<Rightarrow>
   world \<Rightarrow> sink \<Rightarrow> Tunnel \<Rightarrow> sink \<times> (err + Tunnel)" where
  "makeRunConfig_with mcc w s t =
     (case parseSSHConf w (Host t) runConfig0 of
        Inl e \<Rightarrow> (s, Inl (''could not parse SSH config: '' @ e))
      | Inr r0 \<Rightarrow>
          (let r = defaultFields t (overrideFields t r0)
           in case validate r of
                Some e \<Rightarrow> (s, Inl e)
              | None \<Rightarrow> finishRunConfig t r (mcc w s (user r) (identityFile r))))"

definition makeRunConfig :: "world \<Rightarrow> sink \<Rightarrow> Tunnel \<Rightarrow> sink \<times> (err + Tunnel)" where
  "makeRunConfig = makeRunConfig_with makeClientConfig"

section \<open>Reading the scan and the port text\<close>

text \<open>
  What becomes of one candidate path: the file cannot be read, it is read and does not
  parse (with the parser's error), or it yields a signer.
\<close>

datatype keyOutcome = Unreadable | Malformed err | Parsed signer

definition classifyKey :: "world \<Rightarrow> string \<Rightarrow> keyOutcome" where
  "classifyKey w i =
     (case os_ReadFile w (fillHome w i) of
        Inl e \<Rightarrow> Unreadable
      | Inr key \<Rightarrow>
          (case ssh_ParsePrivateKey w key of Inl e \<Rightarrow> Malformed e | Inr sg \<Rightarrow> Parsed sg))"

text \<open>The signers and the warnings a scan of the candidates is expected to add, in order.\<close>

definition signersOf :: "world \<Rightarrow> string list \<Rightarrow> signer list" where
  "signersOf w cs =
     concat (map (\<lambda>i. case classifyKey w i of Parsed sg \<Rightarrow> [sg] | _ \<Rightarrow> []) cs)"

definition parseWarning :: "string \<Rightarrow> err \<Rightarrow> level \<times> string" where
  "parseWarning i e = (WARNING, ''Unable to parse private key '' @ i @ '': '' @ e)"

definition warningsOf :: "world \<Rightarrow> string list \<Rightarrow> sink" where
  "warningsOf w cs =
     concat (map (\<lambda>i. case classifyKey w i of Malformed e \<Rightarrow> [parseWarning i e] | _ \<Rightarrow> []) cs)"

text \<open>
  A decimal integer as a text: an optional sign and one digit or more. \<open>leadingDigits\<close>
  is the run of digits after the optional sign, \<open>decimalValue\<close> the number it writes.
\<close>

definition stripSign :: "string \<Rightarrow> string" where
  "stripSign s = (if s \<noteq> [] \<and> (hd s = CHR ''+'' \<or> hd s = CHR ''-'') then tl s else s)"

definition validDecimal :: "string \<Rightarrow> bool" where
  "validDecimal s = (stripSign s \<noteq> [] \<and> list_all isDigit (stripSign s))"

definition leadingDigits :: "string \<Rightarrow> string" where
  "leadingDigits s = takeWhile isDigit (stripSign s)"

definition decimalValue :: "string \<Rightarrow> nat" where
  "decimalValue ds = foldl (\<lambda>n c. n * 10 + digitVal c) 0 ds"

text \<open>The world with every \<^verbatim>\<open>Port\<close> directive taken out of the decoded configuration.\<close>

definition withoutPort :: "world \<Rightarrow> world" where
  "withoutPort w =
     w\<lparr>ssh_config_Decode := (\<lambda>f. case ssh_config_Decode w f of
          Inl e \<Rightarrow> Inl e
        | Inr c \<Rightarrow> Inr (\<lambda>a k. if k = ''Port'' then None else c a k))\<rparr>"

section \<open>A concrete installation\<close>

text \<open>
  Home directory \<^verbatim>\<open>/home/u\<close>; a configuration file with one block for \<^verbatim>\<open>myhost\<close>;
  \<^verbatim>\<open>id_rsa\<close> is readable and does not parse, \<^verbatim>\<open>id_ed25519\<close> is a good key, nothing
  else can be read; the known-hosts store loads. \<open>joinSlash\<close> is \<^verbatim>\<open>filepath.Join\<close> on
  non-empty elements that need no cleaning.
\<close>

fun joinSlash :: "string list \<Rightarrow> string" where
  "joinSlash [] = []"
| "joinSlash [x] = x"
| "joinSlash (x # y # ys) = x @ ''/'' @ joinSlash (y # ys)"

definition demoConfig :: sshConfig where
  "demoConfig a k =
     (if a = ''myhost''
      then map_of [(''HostName'', ''example.com''), (''User'', ''alice''), (''Port'', ''2222'')] k
      else None)"

definition demoWorld :: world where
  "demoWorld =
     \<lparr>HOME = ''/home/u'',
      os_Open = (\<lambda>p. if p = ''/home/u/.ssh/config'' then Inr ''cfg''
                      else Inl ''no such file''),
      ssh_config_Decode = (\<lambda>f. if f = ''cfg'' then Inr demoConfig else Inl ''bad config''),
      os_ReadFile = (\<lambda>p. if p = ''/home/u/.ssh/id_rsa'' then Inr ''junk''
                          else if p = ''/home/u/.ssh/id_ed25519'' then Inr ''key''
                          else Inl ''no such file''),
      ssh_ParsePrivateKey = (\<lambda>b. if b = ''key'' then Inr (Signer ''ed25519'')
                                  else Inl ''ssh: no key found''),
      knownhosts_New = (\<lambda>p. if p = ''/home/u/.ssh/known_hosts'' then Inr (HostKeyCallback p)
                             else Inl ''no such file''),
      filepath_Join = joinSlash\<rparr>"

definition demoTunnel :: Tunnel where
  "demoTunnel =
     \<lparr>Host = ''myhost'', User = [], Port = 0, IdentityFile = [],
      LocalAddress = ''8080'', RemoteAddress = ''db:5432'', rc = None\<rparr>"

section \<open>Properties\<close>


subsection \<open>Auxiliary facts\<close>

lemma contains_colon: "strings_Contains a '':'' = (CHR '':'' \<in> set a)"
  by (induction a) (auto simp: strings_HasPrefix_def)

lemma scanKeys_collects:
  "scanKeys w cs sigs s = (sigs @ signersOf w cs, s @ warningsOf w cs)"
proof (induction cs arbitrary: sigs s)
  case Nil
  show ?case by (simp add: signersOf_def warningsOf_def)
next
  case (Cons i cs)
  show ?case
  proof (cases "classifyKey w i")
    case Unreadable
    then have "\<exists>e. os_ReadFile w (fillHome w i) = Inl e"
      by (auto simp: classifyKey_def split: sum.splits)
    with Unreadable Cons show ?thesis
      by (auto simp: signersOf_def warningsOf_def)
  next
    case (Malformed e)
    then have "\<exists>key. os_ReadFile w (fillHome w i) = Inr key \<and> ssh_ParsePrivateKey w key = Inl e"
      by (auto simp: classifyKey_def split: sum.splits)
    with Malformed Cons show ?thesis
      by (auto simp: signersOf_def warningsOf_def Warningf_def parseWarning_def)
  next
    case (Parsed sg)
    then have "\<exists>key. os_ReadFile w (fillHome w i) = Inr key \<and> ssh_ParsePrivateKey w key = Inr sg"
      by (auto simp: classifyKey_def split: sum.splits)
    with Parsed Cons show ?thesis
      by (auto simp: signersOf_def warningsOf_def)
  qed
qed

lemma makeClientConfig_scan:
  "makeClientConfig w s usr idf =
     (s @ warningsOf w (idf # defaultKeys),
      if signersOf w (idf # defaultKeys) = [] then Inl ''no key files found.''
      else (case knownhosts_New w (sshConfigPath w ''known_hosts'') of
              Inl e \<Rightarrow> Inl e
            | Inr cb \<Rightarrow> Inr \<lparr>cc_User = usr, cc_Auth = signersOf w (idf # defaultKeys),
                  cc_HostKeyCallback = cb, cc_Timeout = sshConnTimeout\<rparr>))"
  by (simp add: makeClientConfig_def scanKeys_collects Let_def split: sum.splits)

lemma makeRunConfig_with_success:
  assumes "makeRunConfig_with mcc w s t = (s', Inr t')"
  shows "\<exists>cf cc. parseSSHConf w (Host t) runConfig0 = Inr cf \<and>
           validate (defaultFields t (overrideFields t cf)) = None \<and>
           mcc w s (user (defaultFields t (overrideFields t cf)))
                   (identityFile (defaultFields t (overrideFields t cf))) = (s', Inr cc) \<and>
           t' = t\<lparr>rc := Some ((defaultFields t (overrideFields t cf))
                   \<lparr>clientConfig := Some cc, remoteAddress := RemoteAddress t,
                    localAddress := qualifyLocalAddress (LocalAddress t)\<rparr>)\<rparr>"
  using assms
  by (auto simp: makeRunConfig_with_def finishRunConfig_def Let_def
      split: sum.splits option.splits prod.splits)

lemma makeRunConfig_reaches:
  assumes "parseSSHConf w (Host t) runConfig0 = Inr cf"
    and "validate (defaultFields t (overrideFields t cf)) = None"
  shows "makeRunConfig_with mcc w s t =
     finishRunConfig t (defaultFields t (overrideFields t cf))
       (mcc w s (user (defaultFields t (overrideFields t cf)))
                (identityFile (defaultFields t (overrideFields t cf))))"
  using assms by (simp add: makeRunConfig_with_def Let_def)

lemma resolved_fields:
  "user (defaultFields t (overrideFields t cf)) = (if User t \<noteq> [] then User t else user cf)"
  "port (defaultFields t (overrideFields t cf)) =
     (if Port t \<noteq> 0 then Port t else if port cf \<noteq> 0 then port cf else 22)"
  "identityFile (defaultFields t (overrideFields t cf)) =
     (if IdentityFile t \<noteq> [] then IdentityFile t else identityFile cf)"
  "hostName (defaultFields t (overrideFields t cf)) =
     (if hostName cf \<noteq> [] then hostName cf else Host t)"
  by (simp_all add: defaultFields_def overrideFields_def Let_def sshPort_def)

lemma validate_None:
  "validate r = None \<longleftrightarrow> hostName r \<noteq> [] \<and> user r \<noteq> [] \<and> port r \<noteq> 0"
  by (simp add: validate_def)


lemma makeRunConfig_success:
  assumes "makeRunConfig w s t = (s', Inr t')"
  shows "\<exists>cf cc. parseSSHConf w (Host t) runConfig0 = Inr cf \<and>
           validate (defaultFields t (overrideFields t cf)) = None \<and>
           makeClientConfig w s (user (defaultFields t (overrideFields t cf)))
                   (identityFile (defaultFields t (overrideFields t cf))) = (s', Inr cc) \<and>
           t' = t\<lparr>rc := Some ((defaultFields t (overrideFields t cf))
                   \<lparr>clientConfig := Some cc, remoteAddress := RemoteAddress t,
                    localAddress := qualifyLocalAddress (LocalAddress t)\<rparr>)\<rparr>"
  using makeRunConfig_with_success [of makeClientConfig w s t s' t'] assms
  by (simp add: makeRunConfig_def)

lemma demo_run:
  "makeRunConfig demoWorld [] demoTunnel =
     ([parseWarning ''~/.ssh/id_rsa'' ''ssh: no key found''],
      Inr (demoTunnel\<lparr>rc := Some
        \<lparr>localAddress = ''localhost:8080'', remoteAddress = ''db:5432'',
         hostName = ''example.com'', user = ''alice'', port = 2222, identityFile = [],
         clientConfig = Some \<lparr>cc_User = ''alice'', cc_Auth = [Signer ''ed25519''],
           cc_HostKeyCallback = HostKeyCallback ''/home/u/.ssh/known_hosts'',
           cc_Timeout = sshConnTimeout\<rparr>\<rparr>\<rparr>))"
  by (simp add: demoWorld_def demoTunnel_def demoConfig_def makeRunConfig_def
      makeRunConfig_with_def parseSSHConf_def sshConfigPath_def fillHome_def config_Get_def
      runConfig0_def overrideFields_def defaultFields_def validate_def finishRunConfig_def
      makeClientConfig_def defaultKeys_def strings_HasPrefix_def Warningf_def
      qualifyLocalAddress_def sshPort_def strconv_Atoi_def strconv_ParseInt_def
      strconv_ParseUint_def isDigit_def digitVal_def maxUint64_def parseWarning_def)

subsection \<open>The local address\<close>

text \<open>
  Claim C7. The local address: \<^verbatim>\<open>8080\<close> becomes \<^verbatim>\<open>localhost:8080\<close>, \<^verbatim>\<open>0.0.0.0:8080\<close> stays
  as it is; an address without a colon gets \<^verbatim>\<open>localhost:\<close> in front and any other is
  unchanged; doing it twice is the same as doing it once, for every string.
\<close>

theorem qualifyLocalAddress_idempotent:
  "qualifyLocalAddress ''8080'' = ''localhost:8080'' \<and>
   qualifyLocalAddress ''0.0.0.0:8080'' = ''0.0.0.0:8080'' \<and>
   qualifyLocalAddress a = (if CHR '':'' \<in> set a then a else ''localhost:'' @ a) \<and>
   qualifyLocalAddress (qualifyLocalAddress a) = qualifyLocalAddress a"
  by (simp add: qualifyLocalAddress_def contains_colon)

lemma makeRunConfig_localAddress:
  assumes "makeRunConfig w s t = (s', Inr t')"
  shows "map_option localAddress (rc t') = Some (qualifyLocalAddress (LocalAddress t))"
  using makeRunConfig_success [OF assms] by auto

lemmas demo_eval = demoWorld_def demoTunnel_def demoConfig_def makeRunConfig_def
  makeRunConfig_with_def parseSSHConf_def sshConfigPath_def fillHome_def config_Get_def
  runConfig0_def overrideFields_def defaultFields_def validate_def finishRunConfig_def
  makeClientConfig_def defaultKeys_def strings_HasPrefix_def Warningf_def
  qualifyLocalAddress_def sshPort_def strconv_Atoi_def strconv_ParseInt_def
  strconv_ParseUint_def isDigit_def digitVal_def maxUint64_def parseWarning_def

subsection \<open>Precedence of the sources\<close>

text \<open>
  Claim C1. In every resolution, user, port and identity file each come from the first
  source that supplies them: the declaration's own field when it is not empty (not
  zero), else what the configuration file gives for the alias (nothing when the file
  does not open), else, for the port only, the default 22. These are the values that
  are validated, and the ones a successful resolution returns.
\<close>

theorem resolved_field_precedence:
  assumes "parseSSHConf w (Host t) runConfig0 = Inr cf"
  shows "user (defaultFields t (overrideFields t cf)) =
       (if User t \<noteq> [] then User t else user cf) \<and>
     port (defaultFields t (overrideFields t cf)) =
       (if Port t \<noteq> 0 then Port t else if port cf \<noteq> 0 then port cf else 22) \<and>
     identityFile (defaultFields t (overrideFields t cf)) =
       (if IdentityFile t \<noteq> [] then IdentityFile t else identityFile cf) \<and>
     (case os_Open w (sshConfigPath w ''config'') of
        Inl e \<Rightarrow> user cf = [] \<and> port cf = 0 \<and> identityFile cf = []
      | Inr f \<Rightarrow> (\<exists>c. ssh_config_Decode w f = Inr c \<and>
          user cf = config_Get c (Host t) ''User'' \<and>
          port cf = fst (strconv_Atoi (config_Get c (Host t) ''Port'')) \<and>
          identityFile cf = config_Get c (Host t) ''IdentityFile'')) \<and>
     (\<forall>s s' t'. makeRunConfig w s t = (s', Inr t') \<longrightarrow>
        (\<exists>r. rc t' = Some r \<and>
           user r = user (defaultFields t (overrideFields t cf)) \<and>
           port r = port (defaultFields t (overrideFields t cf)) \<and>
           identityFile r = identityFile (defaultFields t (overrideFields t cf))))"
proof -
  have src: "case os_Open w (sshConfigPath w ''config'') of
        Inl e \<Rightarrow> user cf = [] \<and> port cf = 0 \<and> identityFile cf = []
      | Inr f \<Rightarrow> (\<exists>c. ssh_config_Decode w f = Inr c \<and>
          user cf = config_Get c (Host t) ''User'' \<and>
          port cf = fst (strconv_Atoi (config_Get c (Host t) ''Port'')) \<and>
          identityFile cf = config_Get c (Host t) ''IdentityFile'')"
    using assms by (auto simp: parseSSHConf_def runConfig0_def split: sum.splits)
  have ret: "\<exists>r. rc t' = Some r \<and>
           user r = user (defaultFields t (overrideFields t cf)) \<and>
           port r = port (defaultFields t (overrideFields t cf)) \<and>
           identityFile r = identityFile (defaultFields t (overrideFields t cf))"
    if "makeRunConfig w s t = (s', Inr t')" for s s' t'
    using makeRunConfig_success [OF that] assms by auto
  from src ret show ?thesis
    by (simp add: resolved_fields)
qed

theorem resolved_field_precedence_witness:
  "port (defaultFields (demoTunnel\<lparr>Port := 2200\<rparr>)
      (overrideFields (demoTunnel\<lparr>Port := 2200\<rparr>)
        (runConfig0\<lparr>identityFile := [], user := ''alice'', port := 2222,
           hostName := ''example.com''\<rparr>))) = 2200 \<and>
   port (defaultFields demoTunnel
      (overrideFields demoTunnel
        (runConfig0\<lparr>identityFile := [], user := ''alice'', port := 2222,
           hostName := ''example.com''\<rparr>))) = 2222 \<and>
   port (defaultFields (demoTunnel\<lparr>Host := ''other''\<rparr>)
      (overrideFields (demoTunnel\<lparr>Host := ''other''\<rparr>) runConfig0)) = 22 \<and>
   (\<exists>s' t'. makeRunConfig demoWorld [] (demoTunnel\<lparr>Port := 2200\<rparr>) = (s', Inr t') \<and>
     map_option port (rc t') = Some 2200 \<and> map_option user (rc t') = Some ''alice'')"
proof -
  let ?t = "demoTunnel\<lparr>Port := 2200\<rparr>"
  let ?o = "demoTunnel\<lparr>Host := ''other''\<rparr>"
  let ?cf = "runConfig0\<lparr>identityFile := [], user := ''alice'', port := 2222,
           hostName := ''example.com''\<rparr>"
  have cf: "parseSSHConf demoWorld (Host ?t) runConfig0 = Inr ?cf"
    and cfd: "parseSSHConf demoWorld (Host demoTunnel) runConfig0 = Inr ?cf"
    and cfo: "parseSSHConf demoWorld (Host ?o) runConfig0 = Inr runConfig0"
    by (simp_all add: demo_eval)
  obtain s' t' where run: "makeRunConfig demoWorld [] ?t = (s', Inr t')"
    by (simp add: demo_eval)
  note inst = resolved_field_precedence [OF cf]
  from inst have a: "port (defaultFields ?t (overrideFields ?t ?cf)) = 2200"
    and b: "user (defaultFields ?t (overrideFields ?t ?cf)) = ''alice''"
    by (simp_all add: demoTunnel_def runConfig0_def)
  from resolved_field_precedence [OF cfd]
  have c: "port (defaultFields demoTunnel (overrideFields demoTunnel ?cf)) = 2222"
    by (simp add: demoTunnel_def runConfig0_def)
  from resolved_field_precedence [OF cfo]
  have d: "port (defaultFields ?o (overrideFields ?o runConfig0)) = 22"
    by (simp add: demoTunnel_def runConfig0_def)
  from inst run obtain r where "rc t' = Some r"
    "user r = user (defaultFields ?t (overrideFields ?t ?cf))"
    "port r = port (defaultFields ?t (overrideFields ?t ?cf))"
    by blast
  with a b c d run show ?thesis by auto
qed

lemma Atoi_empty: "strconv_Atoi [] = (0, Some ErrSyntax)"
  by (simp add: strconv_Atoi_def strconv_ParseInt_def)

lemma parseSSHConf_unmatched:
  assumes "case os_Open w (sshConfigPath w ''config'') of
             Inl e \<Rightarrow> True
           | Inr f \<Rightarrow> (\<exists>c. ssh_config_Decode w f = Inr c \<and> (\<forall>k. c alias k = None))"
  shows "parseSSHConf w alias runConfig0 = Inr runConfig0"
  using assms
  by (auto simp: parseSSHConf_def config_Get_def Atoi_empty runConfig0_def split: sum.splits)

subsection \<open>An alias without an entry\<close>

text \<open>
  Claim C2, for a non-empty alias. A declaration with a non-empty alias that no
  configuration entry matches (the file does not open, or it decodes and has no value
  for the alias), with no user, port or identity file of its own, fails with
  \<^verbatim>\<open>no user specified.\<close>; the run configuration that was validated has the alias as
  host name, port 22 and no user.
\<close>

theorem unmatched_alias_needs_user:
  assumes "Host t \<noteq> []" and "User t = []" and "Port t = 0" and "IdentityFile t = []"
    and "case os_Open w (sshConfigPath w ''config'') of
           Inl e \<Rightarrow> True
         | Inr f \<Rightarrow> (\<exists>c. ssh_config_Decode w f = Inr c \<and> (\<forall>k. c (Host t) k = None))"
  shows "makeRunConfig w s t = (s, Inl ''no user specified.'') \<and>
     (\<exists>cf. parseSSHConf w (Host t) runConfig0 = Inr cf \<and>
        hostName (defaultFields t (overrideFields t cf)) = Host t \<and>
        port (defaultFields t (overrideFields t cf)) = 22 \<and>
        user (defaultFields t (overrideFields t cf)) = [])"
proof -
  have cf: "parseSSHConf w (Host t) runConfig0 = Inr runConfig0"
    using assms(5) by (rule parseSSHConf_unmatched)
  have fields: "hostName (defaultFields t (overrideFields t runConfig0)) = Host t"
    "port (defaultFields t (overrideFields t runConfig0)) = 22"
    "user (defaultFields t (overrideFields t runConfig0)) = []"
    using assms(2,3) by (simp_all add: resolved_fields runConfig0_def)
  have "validate (defaultFields t (overrideFields t runConfig0)) = Some ''no user specified.''"
    using fields assms(1) by (simp add: validate_def)
  then have "makeRunConfig w s t = (s, Inl ''no user specified.'')"
    using cf by (simp add: makeRunConfig_def makeRunConfig_with_def Let_def)
  then show ?thesis using cf fields by simp
qed

theorem unmatched_alias_needs_user_witness:
  "makeRunConfig demoWorld [] (demoTunnel\<lparr>Host := ''other''\<rparr>) = ([], Inl ''no user specified.'') \<and>
   (\<exists>cf. parseSSHConf demoWorld ''other'' runConfig0 = Inr cf \<and>
      hostName (defaultFields (demoTunnel\<lparr>Host := ''other''\<rparr>)
                  (overrideFields (demoTunnel\<lparr>Host := ''other''\<rparr>) cf)) = ''other'' \<and>
      port (defaultFields (demoTunnel\<lparr>Host := ''other''\<rparr>)
              (overrideFields (demoTunnel\<lparr>Host := ''other''\<rparr>) cf)) = 22)"
proof -
  have "Host (demoTunnel\<lparr>Host := ''other''\<rparr>) \<noteq> []"
    and "User (demoTunnel\<lparr>Host := ''other''\<rparr>) = []"
    and "Port (demoTunnel\<lparr>Host := ''other''\<rparr>) = 0"
    and "IdentityFile (demoTunnel\<lparr>Host := ''other''\<rparr>) = []"
    and "case os_Open demoWorld (sshConfigPath demoWorld ''config'') of
           Inl e \<Rightarrow> True
         | Inr f \<Rightarrow> (\<exists>c. ssh_config_Decode demoWorld f = Inr c \<and>
             (\<forall>k. c (Host (demoTunnel\<lparr>Host := ''other''\<rparr>)) k = None))"
    by (simp_all add: demoTunnel_def demoWorld_def demoConfig_def sshConfigPath_def)
  from unmatched_alias_needs_user [OF this, of "[]"] show ?thesis
    by auto
qed

text \<open>
  With the empty alias the same declaration fails on the host name: the first check of
  \<^verbatim>\<open>validate\<close> is the one that fires.
\<close>

theorem empty_alias_names_host:
  "os_Open (demoWorld\<lparr>os_Open := \<lambda>p. Inl ''no such file''\<rparr>)
     (sshConfigPath (demoWorld\<lparr>os_Open := \<lambda>p. Inl ''no such file''\<rparr>) ''config'') = Inl ''no such file'' \<and>
   User (demoTunnel\<lparr>Host := []\<rparr>) = [] \<and> Port (demoTunnel\<lparr>Host := []\<rparr>) = 0 \<and>
   IdentityFile (demoTunnel\<lparr>Host := []\<rparr>) = [] \<and>
   makeRunConfig (demoWorld\<lparr>os_Open := \<lambda>p. Inl ''no such file''\<rparr>) [] (demoTunnel\<lparr>Host := []\<rparr>)
     = ([], Inl ''no host specified.'')"
  by (simp add: demo_eval)

subsection \<open>Validation comes before the client configuration\<close>

text \<open>
  Claim C3. Whatever function builds the client configuration, either
  \<^verbatim>\<open>makeRunConfig\<close> fails with an error and a sink that do not depend on it (it is not
  consulted), or the run configuration it is called on has a host name, a user and a
  non-zero port, and the outcome is that of the call.
\<close>

theorem client_config_only_after_validation:
  "(\<exists>e. \<forall>mcc. makeRunConfig_with mcc w s t = (s, Inl e)) \<or>
   (\<exists>cf. parseSSHConf w (Host t) runConfig0 = Inr cf \<and>
      hostName (defaultFields t (overrideFields t cf)) \<noteq> [] \<and>
      user (defaultFields t (overrideFields t cf)) \<noteq> [] \<and>
      port (defaultFields t (overrideFields t cf)) \<noteq> 0 \<and>
      (\<forall>mcc. makeRunConfig_with mcc w s t =
         finishRunConfig t (defaultFields t (overrideFields t cf))
           (mcc w s (user (defaultFields t (overrideFields t cf)))
                    (identityFile (defaultFields t (overrideFields t cf))))))"
proof (cases "parseSSHConf w (Host t) runConfig0")
  case (Inl e)
  then show ?thesis by (simp add: makeRunConfig_with_def)
next
  case (Inr cf)
  show ?thesis
  proof (cases "validate (defaultFields t (overrideFields t cf))")
    case None
    then show ?thesis
      using Inr makeRunConfig_reaches [OF Inr None] by (simp add: validate_None)
  next
    case (Some e)
    then show ?thesis using Inr by (simp add: makeRunConfig_with_def Let_def)
  qed
qed


lemma all_unreadable:
  assumes "\<forall>i \<in> set cs. \<exists>e. os_ReadFile w (fillHome w i) = Inl e"
  shows "signersOf w cs = [] \<and> warningsOf w cs = []"
  using assms
  by (induction cs) (auto simp: signersOf_def warningsOf_def classifyKey_def)

subsection \<open>No readable key\<close>

text \<open>
  Claim C4. When none of the candidate paths (the identity file, then the three default
  keys) can be read, the scan yields no signer and leaves the sink as it was,
  \<^verbatim>\<open>makeClientConfig\<close> fails with \<^verbatim>\<open>no key files found.\<close>, and a resolution that has
  passed validation with this identity file fails with that error, wrapped.
\<close>

theorem no_readable_key_fails:
  assumes "\<forall>i \<in> set (idf # defaultKeys). \<exists>e. os_ReadFile w (fillHome w i) = Inl e"
  shows "scanKeys w (idf # defaultKeys) [] s = ([], s) \<and>
     makeClientConfig w s usr idf = (s, Inl ''no key files found.'') \<and>
     (\<forall>t cf. parseSSHConf w (Host t) runConfig0 = Inr cf \<and>
        validate (defaultFields t (overrideFields t cf)) = None \<and>
        identityFile (defaultFields t (overrideFields t cf)) = idf \<longrightarrow>
        makeRunConfig w s t =
          (s, Inl ''could not make client config: no key files found.''))"
proof -
  from all_unreadable [OF assms]
  have none: "signersOf w (idf # defaultKeys) = []" "warningsOf w (idf # defaultKeys) = []"
    by simp_all
  have scan: "scanKeys w (idf # defaultKeys) [] s = ([], s)"
    using none by (simp add: scanKeys_collects)
  have mcc: "makeClientConfig w s u idf = (s, Inl ''no key files found.'')" for u
    using none by (simp add: makeClientConfig_scan)
  have "makeRunConfig w s t = (s, Inl ''could not make client config: no key files found.'')"
    if "parseSSHConf w (Host t) runConfig0 = Inr cf"
      and "validate (defaultFields t (overrideFields t cf)) = None"
      and "identityFile (defaultFields t (overrideFields t cf)) = idf" for t cf
    using makeRunConfig_reaches [OF that(1,2), of makeClientConfig s] that(3) mcc
    by (simp add: makeRunConfig_def finishRunConfig_def)
  then show ?thesis using scan mcc by blast
qed

theorem no_readable_key_fails_witness:
  "makeClientConfig (demoWorld\<lparr>os_ReadFile := \<lambda>p. Inl ''no such file''\<rparr>) [] ''alice'' []
     = ([], Inl ''no key files found.'') \<and>
   makeRunConfig (demoWorld\<lparr>os_ReadFile := \<lambda>p. Inl ''no such file''\<rparr>) [] demoTunnel
     = ([], Inl ''could not make client config: no key files found.'')"
proof -
  let ?w = "demoWorld\<lparr>os_ReadFile := \<lambda>p. Inl ''no such file''\<rparr>"
  have unreadable: "\<forall>i \<in> set ([] # defaultKeys). \<exists>e. os_ReadFile ?w (fillHome ?w i) = Inl e"
    by simp
  obtain cf where cf: "parseSSHConf ?w (Host demoTunnel) runConfig0 = Inr cf"
    "validate (defaultFields demoTunnel (overrideFields demoTunnel cf)) = None"
    "identityFile (defaultFields demoTunnel (overrideFields demoTunnel cf)) = []"
    by (simp add: demo_eval)
  from no_readable_key_fails [OF unreadable, of "[]" "''alice''"] cf show ?thesis
    by blast
qed

subsection \<open>The configuration file\<close>

text \<open>
  Claim C5, as the code has it. A configuration file that opens and does not decode
  fails the resolution, the decoder's error inside the returned one. A file that does
  not open, whatever the reason, is no error and leaves the run configuration as it
  was; neither is an alias for which the decoded file has no value.
\<close>

theorem config_file_failures:
  "(\<forall>f e. os_Open w (sshConfigPath w ''config'') = Inr f \<and> ssh_config_Decode w f = Inl e \<longrightarrow>
      makeRunConfig w s t =
        (s, Inl (''could not parse SSH config: could not decode ssh config: '' @ e))) \<and>
   (\<forall>e. os_Open w (sshConfigPath w ''config'') = Inl e \<longrightarrow> parseSSHConf w alias r = Inr r) \<and>
   (\<forall>f c. os_Open w (sshConfigPath w ''config'') = Inr f \<and> ssh_config_Decode w f = Inr c \<and>
      (\<forall>k. c alias k = None) \<longrightarrow> parseSSHConf w alias runConfig0 = Inr runConfig0)"
proof (intro conjI allI impI)
  fix f e
  assume "os_Open w (sshConfigPath w ''config'') = Inr f \<and> ssh_config_Decode w f = Inl e"
  then show "makeRunConfig w s t =
      (s, Inl (''could not parse SSH config: could not decode ssh config: '' @ e))"
    by (simp add: makeRunConfig_def makeRunConfig_with_def parseSSHConf_def)
next
  fix e
  assume "os_Open w (sshConfigPath w ''config'') = Inl e"
  then show "parseSSHConf w alias r = Inr r"
    by (simp add: parseSSHConf_def)
next
  fix f c
  assume "os_Open w (sshConfigPath w ''config'') = Inr f \<and> ssh_config_Decode w f = Inr c \<and>
      (\<forall>k. c alias k = None)"
  then show "parseSSHConf w alias runConfig0 = Inr runConfig0"
    by (intro parseSSHConf_unmatched) simp
qed

theorem config_file_failures_witness:
  "makeRunConfig (demoWorld\<lparr>ssh_config_Decode := \<lambda>f. Inl ''line 3: bad syntax''\<rparr>) [] demoTunnel
     = ([], Inl ''could not parse SSH config: could not decode ssh config: line 3: bad syntax'') \<and>
   parseSSHConf (demoWorld\<lparr>os_Open := \<lambda>p. Inl ''no such file''\<rparr>) ''myhost'' runConfig0
     = Inr runConfig0 \<and>
   parseSSHConf demoWorld ''other'' runConfig0 = Inr runConfig0"
proof -
  let ?w1 = "demoWorld\<lparr>ssh_config_Decode := \<lambda>f. Inl ''line 3: bad syntax''\<rparr>"
  let ?w2 = "demoWorld\<lparr>os_Open := \<lambda>p. Inl ''no such file''\<rparr>"
  have 1: "os_Open ?w1 (sshConfigPath ?w1 ''config'') = Inr ''cfg'' \<and>
      ssh_config_Decode ?w1 ''cfg'' = Inl ''line 3: bad syntax''"
    by (simp add: demoWorld_def sshConfigPath_def)
  have 2: "os_Open ?w2 (sshConfigPath ?w2 ''config'') = Inl ''no such file''"
    by simp
  have 3: "os_Open demoWorld (sshConfigPath demoWorld ''config'') = Inr ''cfg'' \<and>
      ssh_config_Decode demoWorld ''cfg'' = Inr demoConfig \<and> (\<forall>k. demoConfig ''other'' k = None)"
    by (simp add: demoWorld_def sshConfigPath_def demoConfig_def)
  from config_file_failures [of ?w1 "[]" demoTunnel] 1
  have a: "makeRunConfig ?w1 [] demoTunnel
     = ([], Inl (''could not parse SSH config: could not decode ssh config: '' @ ''line 3: bad syntax''))"
    by blast
  from config_file_failures [of ?w2 _ _ "''myhost''" runConfig0] 2
  have b: "parseSSHConf ?w2 ''myhost'' runConfig0 = Inr runConfig0" by blast
  from config_file_failures [of demoWorld _ _ "''other''"] 3
  have c: "parseSSHConf demoWorld ''other'' runConfig0 = Inr runConfig0" by blast
  from a b c show ?thesis by simp
qed

text \<open>
  A configuration file that cannot be opened for lack of permission is not fatal: the
  resolution goes on without it and, the user being declared, succeeds.
\<close>

theorem unreadable_config_not_fatal:
  "os_Open (demoWorld\<lparr>os_Open := \<lambda>p. Inl ''permission denied''\<rparr>)
     (sshConfigPath (demoWorld\<lparr>os_Open := \<lambda>p. Inl ''permission denied''\<rparr>) ''config'')
     = Inl ''permission denied'' \<and>
   makeRunConfig (demoWorld\<lparr>os_Open := \<lambda>p. Inl ''permission denied''\<rparr>) []
       (demoTunnel\<lparr>User := ''bob''\<rparr>) =
     ([parseWarning ''~/.ssh/id_rsa'' ''ssh: no key found''],
      Inr (demoTunnel\<lparr>User := ''bob'', rc := Some
        \<lparr>localAddress = ''localhost:8080'', remoteAddress = ''db:5432'',
         hostName = ''myhost'', user = ''bob'', port = 22, identityFile = [],
         clientConfig = Some \<lparr>cc_User = ''bob'', cc_Auth = [Signer ''ed25519''],
           cc_HostKeyCallback = HostKeyCallback ''/home/u/.ssh/known_hosts'',
           cc_Timeout = sshConnTimeout\<rparr>\<rparr>\<rparr>))"
  by (simp add: demo_eval)


subsection \<open>The known-hosts callback\<close>

text \<open>
  Claim C6. When the known-hosts callback cannot be constructed, every resolution fails;
  and a resolution that succeeds carries the callback that \<^verbatim>\<open>knownhosts.New\<close> returned
  for the known-hosts path.
\<close>

theorem known_hosts_failure_is_fatal:
  "(\<forall>e. knownhosts_New w (sshConfigPath w ''known_hosts'') = Inl e \<longrightarrow>
      (\<exists>e'. snd (makeClientConfig w s usr idf) = Inl e') \<and>
      (\<exists>s' e'. makeRunConfig w s t = (s', Inl e'))) \<and>
   (\<forall>s' t'. makeRunConfig w s t = (s', Inr t') \<longrightarrow>
      (\<exists>r cc cb. rc t' = Some r \<and> clientConfig r = Some cc \<and>
         knownhosts_New w (sshConfigPath w ''known_hosts'') = Inr cb \<and>
         cc_HostKeyCallback cc = cb))"
proof (intro conjI allI impI)
  fix s' t'
  assume "makeRunConfig w s t = (s', Inr t')"
  from makeRunConfig_success [OF this] obtain cf cc where
    mcc: "makeClientConfig w s (user (defaultFields t (overrideFields t cf)))
            (identityFile (defaultFields t (overrideFields t cf))) = (s', Inr cc)"
    and t': "t' = t\<lparr>rc := Some ((defaultFields t (overrideFields t cf))
                   \<lparr>clientConfig := Some cc, remoteAddress := RemoteAddress t,
                    localAddress := qualifyLocalAddress (LocalAddress t)\<rparr>)\<rparr>"
    by blast
  from mcc obtain cb where "knownhosts_New w (sshConfigPath w ''known_hosts'') = Inr cb"
    and "cc_HostKeyCallback cc = cb"
    by (auto simp: makeClientConfig_scan split: if_splits sum.splits)
  with t' show "\<exists>r cc cb. rc t' = Some r \<and> clientConfig r = Some cc \<and>
         knownhosts_New w (sshConfigPath w ''known_hosts'') = Inr cb \<and>
         cc_HostKeyCallback cc = cb"
    by simp
next
  fix e
  assume kh: "knownhosts_New w (sshConfigPath w ''known_hosts'') = Inl e"
  have mcc: "\<exists>e'. snd (makeClientConfig w s u i) = Inl e'" for u i
    using kh by (simp add: makeClientConfig_scan)
  then show "\<exists>e'. snd (makeClientConfig w s usr idf) = Inl e'" .
  show "\<exists>s' e'. makeRunConfig w s t = (s', Inl e')"
  proof (cases "makeRunConfig w s t")
    case (Pair s1 res)
    show ?thesis
    proof (cases res)
      case (Inl e')
      with Pair show ?thesis by simp
    next
      case (Inr t')
      with Pair have "makeRunConfig w s t = (s1, Inr t')" by simp
      from makeRunConfig_success [OF this] obtain u i cc where
        "makeClientConfig w s u i = (s1, Inr cc)" by blast
      with mcc [of u i] show ?thesis by simp
    qed
  qed
qed

theorem known_hosts_failure_is_fatal_witness:
  "makeRunConfig (demoWorld\<lparr>knownhosts_New := \<lambda>p. Inl ''no such file''\<rparr>) [] demoTunnel =
     ([parseWarning ''~/.ssh/id_rsa'' ''ssh: no key found''],
      Inl ''could not make client config: no such file'') \<and>
   (\<exists>s' e'. makeRunConfig (demoWorld\<lparr>knownhosts_New := \<lambda>p. Inl ''no such file''\<rparr>) [] demoTunnel
      = (s', Inl e')) \<and>
   (\<exists>s' t' r cc. makeRunConfig demoWorld [] demoTunnel = (s', Inr t') \<and> rc t' = Some r \<and>
      clientConfig r = Some cc \<and>
      cc_HostKeyCallback cc = HostKeyCallback ''/home/u/.ssh/known_hosts'')"
proof -
  let ?w = "demoWorld\<lparr>knownhosts_New := \<lambda>p. Inl ''no such file''\<rparr>"
  have kh: "knownhosts_New ?w (sshConfigPath ?w ''known_hosts'') = Inl ''no such file''"
    by simp
  have a: "makeRunConfig ?w [] demoTunnel =
     ([parseWarning ''~/.ssh/id_rsa'' ''ssh: no key found''],
      Inl ''could not make client config: no such file'')"
    by (simp add: demo_eval)
  from known_hosts_failure_is_fatal [of ?w "[]" "[]" "[]" demoTunnel] kh
  have b: "\<exists>s' e'. makeRunConfig ?w [] demoTunnel = (s', Inl e')"
    by blast
  have khd: "knownhosts_New demoWorld (sshConfigPath demoWorld ''known_hosts'')
      = Inr (HostKeyCallback ''/home/u/.ssh/known_hosts'')"
    by (simp add: demoWorld_def sshConfigPath_def)
  obtain s' t' where run: "makeRunConfig demoWorld [] demoTunnel = (s', Inr t')"
    using demo_run by simp
  from known_hosts_failure_is_fatal [of demoWorld "[]" "[]" "[]" demoTunnel]
  have "\<forall>s' t'. makeRunConfig demoWorld [] demoTunnel = (s', Inr t') \<longrightarrow>
      (\<exists>r cc cb. rc t' = Some r \<and> clientConfig r = Some cc \<and>
         knownhosts_New demoWorld (sshConfigPath demoWorld ''known_hosts'') = Inr cb \<and>
         cc_HostKeyCallback cc = cb)"
    by (rule conjunct2)
  with run obtain r cc cb where "rc t' = Some r" "clientConfig r = Some cc"
    "knownhosts_New demoWorld (sshConfigPath demoWorld ''known_hosts'') = Inr cb"
    "cc_HostKeyCallback cc = cb"
    by blast
  with khd run
  have c: "\<exists>s' t' r cc. makeRunConfig demoWorld [] demoTunnel = (s', Inr t') \<and> rc t' = Some r \<and>
      clientConfig r = Some cc \<and>
      cc_HostKeyCallback cc = HostKeyCallback ''/home/u/.ssh/known_hosts''"
    by auto
  from a b c show ?thesis by (intro conjI)
qed

subsection \<open>The resolved port\<close>

text \<open>
  Claim C9, as the code has it. The port of a resolution that succeeds is never zero.
\<close>

theorem resolved_port_nonzero:
  assumes "makeRunConfig w s t = (s', Inr t')"
  shows "\<exists>r. rc t' = Some r \<and> port r \<noteq> 0"
proof -
  from makeRunConfig_success [OF assms] obtain cf cc where
    "validate (defaultFields t (overrideFields t cf)) = None"
    and "t' = t\<lparr>rc := Some ((defaultFields t (overrideFields t cf))
                   \<lparr>clientConfig := Some cc, remoteAddress := RemoteAddress t,
                    localAddress := qualifyLocalAddress (LocalAddress t)\<rparr>)\<rparr>"
    by blast
  then show ?thesis by (simp add: validate_None)
qed

theorem resolved_port_nonzero_witness:
  "\<exists>s' t' r. makeRunConfig demoWorld [] demoTunnel = (s', Inr t') \<and>
     rc t' = Some r \<and> port r \<noteq> 0"
proof -
  obtain s' t' where run: "makeRunConfig demoWorld [] demoTunnel = (s', Inr t')"
    using demo_run by simp
  from resolved_port_nonzero [OF run] run show ?thesis by blast
qed

text \<open>
  A declared port of \<open>-1\<close> passes validation, which only rejects zero, and is the port
  of the run configuration that the resolution returns.
\<close>

theorem negative_port_is_kept:
  "makeRunConfig demoWorld [] (demoTunnel\<lparr>Port := - 1\<rparr>) =
     ([parseWarning ''~/.ssh/id_rsa'' ''ssh: no key found''],
      Inr (demoTunnel\<lparr>Port := - 1, rc := Some
        \<lparr>localAddress = ''localhost:8080'', remoteAddress = ''db:5432'',
         hostName = ''example.com'', user = ''alice'', port = - 1, identityFile = [],
         clientConfig = Some \<lparr>cc_User = ''alice'', cc_Auth = [Signer ''ed25519''],
           cc_HostKeyCallback = HostKeyCallback ''/home/u/.ssh/known_hosts'',
           cc_Timeout = sshConnTimeout\<rparr>\<rparr>\<rparr>))"
  by (simp add: demo_eval)


lemma signersOf_append: "signersOf w (xs @ ys) = signersOf w xs @ signersOf w ys"
  by (simp add: signersOf_def)

lemma warningsOf_append: "warningsOf w (xs @ ys) = warningsOf w xs @ warningsOf w ys"
  by (simp add: warningsOf_def)

lemma classified_unreadable:
  assumes "\<forall>i \<in> set cs. classifyKey w i = Unreadable"
  shows "signersOf w cs = [] \<and> warningsOf w cs = []"
  using assms by (induction cs) (auto simp: signersOf_def warningsOf_def)

subsection \<open>A malformed key before a valid one\<close>

text \<open>
  Claim C8. When, among the candidates, one that is read and does not parse comes before
  one that parses, and no other can be read, the scan ends with exactly the one signer
  and exactly one new warning, which names the malformed candidate;
  \<^verbatim>\<open>makeClientConfig\<close> then returns what the known-hosts step makes of it, and a
  resolution that has passed validation with this user and identity file succeeds when
  the known-hosts callback is constructed. For every candidate list the scan adds the
  signers of the candidates that parse, in scan order, and one warning for each
  candidate that is read and does not parse; a candidate that cannot be read adds
  nothing.
\<close>

theorem malformed_key_before_valid_key:
  assumes "idf # defaultKeys = pre @ [m] @ mid @ [v] @ post"
    and "classifyKey w m = Malformed e" and "classifyKey w v = Parsed sg"
    and "\<forall>i \<in> set (pre @ mid @ post). classifyKey w i = Unreadable"
  shows "scanKeys w (idf # defaultKeys) [] s = ([sg], s @ [parseWarning m e]) \<and>
     makeClientConfig w s usr idf =
       (s @ [parseWarning m e],
        case knownhosts_New w (sshConfigPath w ''known_hosts'') of
          Inl e' \<Rightarrow> Inl e'
        | Inr cb \<Rightarrow> Inr \<lparr>cc_User = usr, cc_Auth = [sg], cc_HostKeyCallback = cb,
             cc_Timeout = sshConnTimeout\<rparr>) \<and>
     (\<forall>t cf cb. parseSSHConf w (Host t) runConfig0 = Inr cf \<and>
        validate (defaultFields t (overrideFields t cf)) = None \<and>
        user (defaultFields t (overrideFields t cf)) = usr \<and>
        identityFile (defaultFields t (overrideFields t cf)) = idf \<and>
        knownhosts_New w (sshConfigPath w ''known_hosts'') = Inr cb \<longrightarrow>
        makeRunConfig w s t =
          (s @ [parseWarning m e],
           Inr (t\<lparr>rc := Some ((defaultFields t (overrideFields t cf))
             \<lparr>clientConfig := Some \<lparr>cc_User = usr, cc_Auth = [sg], cc_HostKeyCallback = cb,
                 cc_Timeout = sshConnTimeout\<rparr>,
              remoteAddress := RemoteAddress t,
              localAddress := qualifyLocalAddress (LocalAddress t)\<rparr>)\<rparr>))) \<and>
     (\<forall>cs sigs s0. scanKeys w cs sigs s0 = (sigs @ signersOf w cs, s0 @ warningsOf w cs))"
proof -
  have pre: "signersOf w pre = [] \<and> warningsOf w pre = []"
    and mid: "signersOf w mid = [] \<and> warningsOf w mid = []"
    and post: "signersOf w post = [] \<and> warningsOf w post = []"
    using assms(4) by (simp_all add: classified_unreadable)
  have one: "signersOf w [m] = [] \<and> warningsOf w [m] = [parseWarning m e]"
    "signersOf w [v] = [sg] \<and> warningsOf w [v] = []"
    using assms(2,3) by (simp_all add: signersOf_def warningsOf_def)
  have sig: "signersOf w (idf # defaultKeys) = [sg]"
    unfolding assms(1) signersOf_append using pre mid post one by simp
  have warn: "warningsOf w (idf # defaultKeys) = [parseWarning m e]"
    unfolding assms(1) warningsOf_append using pre mid post one by simp
  have scan: "scanKeys w (idf # defaultKeys) [] s = ([sg], s @ [parseWarning m e])"
    using sig warn by (simp add: scanKeys_collects)
  have mcc: "makeClientConfig w s usr idf =
       (s @ [parseWarning m e],
        case knownhosts_New w (sshConfigPath w ''known_hosts'') of
          Inl e' \<Rightarrow> Inl e'
        | Inr cb \<Rightarrow> Inr \<lparr>cc_User = usr, cc_Auth = [sg], cc_HostKeyCallback = cb,
             cc_Timeout = sshConnTimeout\<rparr>)"
    using sig warn by (simp add: makeClientConfig_scan split: sum.splits)
  have run: "makeRunConfig w s t =
          (s @ [parseWarning m e],
           Inr (t\<lparr>rc := Some ((defaultFields t (overrideFields t cf))
             \<lparr>clientConfig := Some \<lparr>cc_User = usr, cc_Auth = [sg], cc_HostKeyCallback = cb,
                 cc_Timeout = sshConnTimeout\<rparr>,
              remoteAddress := RemoteAddress t,
              localAddress := qualifyLocalAddress (LocalAddress t)\<rparr>)\<rparr>))"
    if "parseSSHConf w (Host t) runConfig0 = Inr cf"
      and "validate (defaultFields t (overrideFields t cf)) = None"
      and "user (defaultFields t (overrideFields t cf)) = usr"
      and "identityFile (defaultFields t (overrideFields t cf)) = idf"
      and "knownhosts_New w (sshConfigPath w ''known_hosts'') = Inr cb" for t cf cb
    using makeRunConfig_reaches [OF that(1,2), of makeClientConfig s] that(3,4,5) mcc
    by (simp add: makeRunConfig_def finishRunConfig_def)
  from scan mcc run scanKeys_collects show ?thesis by blast
qed

theorem malformed_key_before_valid_key_witness:
  "scanKeys demoWorld ([] # defaultKeys) [] [] =
     ([Signer ''ed25519''], [parseWarning ''~/.ssh/id_rsa'' ''ssh: no key found'']) \<and>
   (\<exists>t' r cc. makeRunConfig demoWorld [] demoTunnel =
        ([parseWarning ''~/.ssh/id_rsa'' ''ssh: no key found''], Inr t') \<and>
      rc t' = Some r \<and> clientConfig r = Some cc \<and> cc_Auth cc = [Signer ''ed25519''])"
proof -
  have split: "[] # defaultKeys =
      [[]] @ [''~/.ssh/id_rsa''] @ [''~/.ssh/id_ecdsa''] @ [''~/.ssh/id_ed25519''] @ []"
    by (simp add: defaultKeys_def)
  have m: "classifyKey demoWorld ''~/.ssh/id_rsa'' = Malformed ''ssh: no key found''"
    and v: "classifyKey demoWorld ''~/.ssh/id_ed25519'' = Parsed (Signer ''ed25519'')"
    and u: "\<forall>i \<in> set ([[]] @ [''~/.ssh/id_ecdsa''] @ []). classifyKey demoWorld i = Unreadable"
    by (simp_all add: classifyKey_def demoWorld_def fillHome_def strings_HasPrefix_def)
  obtain cf where cf: "parseSSHConf demoWorld (Host demoTunnel) runConfig0 = Inr cf"
    "validate (defaultFields demoTunnel (overrideFields demoTunnel cf)) = None"
    "user (defaultFields demoTunnel (overrideFields demoTunnel cf)) = ''alice''"
    "identityFile (defaultFields demoTunnel (overrideFields demoTunnel cf)) = []"
    "knownhosts_New demoWorld (sshConfigPath demoWorld ''known_hosts'')
      = Inr (HostKeyCallback ''/home/u/.ssh/known_hosts'')"
    by (simp add: demo_eval)
  note inst = malformed_key_before_valid_key [OF split m v u, of "[]" "''alice''"]
  from inst have a: "scanKeys demoWorld ([] # defaultKeys) [] [] =
     ([Signer ''ed25519''], [parseWarning ''~/.ssh/id_rsa'' ''ssh: no key found''])"
    by simp
  from inst cf have "\<exists>t'. makeRunConfig demoWorld [] demoTunnel =
        ([parseWarning ''~/.ssh/id_rsa'' ''ssh: no key found''], Inr t') \<and>
      map_option clientConfig (rc t') = Some (Some \<lparr>cc_User = ''alice'', cc_Auth = [Signer ''ed25519''],
           cc_HostKeyCallback = HostKeyCallback ''/home/u/.ssh/known_hosts'',
           cc_Timeout = sshConnTimeout\<rparr>)"
    by simp
  then have b: "\<exists>t' r cc. makeRunConfig demoWorld [] demoTunnel =
        ([parseWarning ''~/.ssh/id_rsa'' ''ssh: no key found''], Inr t') \<and>
      rc t' = Some r \<and> clientConfig r = Some cc \<and> cc_Auth cc = [Signer ''ed25519'']"
    by auto
  from a b show ?thesis by (rule conjI)
qed

lemma foldl_decimal_ge: "n \<le> foldl (\<lambda>n c. n * 10 + digitVal c) n ds"
proof (induction ds arbitrary: n)
  case Nil
  show ?case by simp
next
  case (Cons d ds)
  have "n \<le> n * 10 + digitVal d" by simp
  also have "\<dots> \<le> foldl (\<lambda>n c. n * 10 + digitVal c) (n * 10 + digitVal d) ds"
    by (rule Cons.IH)
  finally show ?case by simp
qed

lemma parseUintLoop_nondigit:
  assumes "list_all isDigit ds" and "\<not> isDigit c"
    and "foldl (\<lambda>n c. n * 10 + digitVal c) n ds \<le> maxUint64"
  shows "parseUintLoop n (ds @ c # rest) = (0, Some ErrSyntax)"
  using assms
proof (induction ds arbitrary: n)
  case Nil
  then show ?case by simp
next
  case (Cons d ds)
  have "n * 10 + digitVal d \<le> foldl (\<lambda>n c. n * 10 + digitVal c) (n * 10 + digitVal d) ds"
    by (rule foldl_decimal_ge)
  with Cons.prems(3) have le: "n * 10 + digitVal d \<le> maxUint64" by simp
  then have "n \<le> maxUint64 div 10" by simp
  with le Cons show ?case by simp
qed

lemma Atoi_syntax_error:
  assumes "\<not> validDecimal p" and "decimalValue (leadingDigits p) \<le> maxUint64"
  shows "strconv_Atoi p = (0, Some ErrSyntax)"
proof (cases "p = []")
  case True
  then show ?thesis by (simp add: Atoi_empty)
next
  case False
  let ?s = "stripSign p"
  have strip: "(if hd p = CHR ''+'' \<or> hd p = CHR ''-'' then tl p else p) = ?s"
    using False by (simp add: stripSign_def)
  have "strconv_ParseUint ?s = (0, Some ErrSyntax)"
  proof (cases "?s = []")
    case True
    then show ?thesis by (simp add: strconv_ParseUint_def)
  next
    case nonempty: False
    with assms(1) have "\<not> list_all isDigit ?s" by (simp add: validDecimal_def)
    then have dw: "dropWhile isDigit ?s \<noteq> []"
      by (simp add: list_all_iff)
    then obtain c rest where cr: "dropWhile isDigit ?s = c # rest"
      by (cases "dropWhile isDigit ?s") auto
    then have "\<not> isDigit c" using hd_dropWhile [OF dw] by simp
    moreover have "?s = takeWhile isDigit ?s @ c # rest"
      using cr takeWhile_dropWhile_id [of isDigit ?s] by simp
    moreover have "list_all isDigit (takeWhile isDigit ?s)"
      by (simp add: list_all_iff) (meson set_takeWhileD)
    ultimately have "parseUintLoop 0 ?s = (0, Some ErrSyntax)"
      using parseUintLoop_nondigit [of "takeWhile isDigit ?s" c 0 rest] assms(2)
      by (simp add: decimalValue_def leadingDigits_def)
    with nonempty show ?thesis by (simp add: strconv_ParseUint_def)
  qed
  with False strip show ?thesis
    by (simp add: strconv_Atoi_def strconv_ParseInt_def)
qed


lemma withoutPort_fields:
  "HOME (withoutPort w) = HOME w"
  "os_Open (withoutPort w) = os_Open w"
  "os_ReadFile (withoutPort w) = os_ReadFile w"
  "ssh_ParsePrivateKey (withoutPort w) = ssh_ParsePrivateKey w"
  "knownhosts_New (withoutPort w) = knownhosts_New w"
  "filepath_Join (withoutPort w) = filepath_Join w"
  by (simp_all add: withoutPort_def)

lemma classifyKey_withoutPort: "classifyKey (withoutPort w) i = classifyKey w i"
  by (simp add: classifyKey_def fillHome_def withoutPort_fields split: sum.splits)

lemma makeClientConfig_withoutPort:
  "makeClientConfig (withoutPort w) s usr idf = makeClientConfig w s usr idf"
proof -
  have "signersOf (withoutPort w) cs = signersOf w cs"
    and "warningsOf (withoutPort w) cs = warningsOf w cs" for cs
    by (simp_all add: signersOf_def warningsOf_def classifyKey_withoutPort)
  then show ?thesis
    by (simp add: makeClientConfig_scan sshConfigPath_def withoutPort_fields split: sum.splits)
qed

subsection \<open>A port text that is not a number\<close>

text \<open>
  Claim C10, as the code has it. A \<^verbatim>\<open>Port\<close> text that is not a decimal integer, and
  whose digits in front of the first other character (after an optional sign) do not
  exceed \<open>2^64 - 1\<close>, is a syntax error for \<^verbatim>\<open>strconv.Atoi\<close> with the value 0. The
  parsed port is then 0, the resolved port is the declared one or else 22, and the
  whole resolution, its error and the sink included, is that of the same configuration
  with the \<^verbatim>\<open>Port\<close> directive taken out.
\<close>

theorem undecodable_port_is_unspecified:
  assumes "\<not> validDecimal p" and "decimalValue (leadingDigits p) \<le> maxUint64"
    and "os_Open w (sshConfigPath w ''config'') = Inr f"
    and "ssh_config_Decode w f = Inr c"
    and "config_Get c (Host t) ''Port'' = p"
  shows "strconv_Atoi p = (0, Some ErrSyntax) \<and>
     (\<exists>cf. parseSSHConf w (Host t) runConfig0 = Inr cf \<and> port cf = 0 \<and>
        port (defaultFields t (overrideFields t cf)) = (if Port t \<noteq> 0 then Port t else 22)) \<and>
     makeRunConfig w s t = makeRunConfig (withoutPort w) s t"
proof -
  have atoi: "strconv_Atoi p = (0, Some ErrSyntax)"
    using assms(1,2) by (rule Atoi_syntax_error)
  let ?cf = "runConfig0\<lparr>identityFile := config_Get c (Host t) ''IdentityFile'',
      user := config_Get c (Host t) ''User'', port := 0,
      hostName := config_Get c (Host t) ''HostName''\<rparr>"
  have cf: "parseSSHConf w (Host t) runConfig0 = Inr ?cf"
    using assms(3,4,5) atoi by (simp add: parseSSHConf_def)
  have cf': "parseSSHConf (withoutPort w) (Host t) runConfig0 = Inr ?cf"
    using assms(3,4)
    by (simp add: parseSSHConf_def withoutPort_fields sshConfigPath_def)
      (simp add: withoutPort_def config_Get_def Atoi_empty)
  have run: "makeRunConfig w s t = makeRunConfig (withoutPort w) s t"
    using cf cf'
    by (simp add: makeRunConfig_def makeRunConfig_with_def makeClientConfig_withoutPort Let_def
        split: option.splits)
  have "port (defaultFields t (overrideFields t ?cf)) = (if Port t \<noteq> 0 then Port t else 22)"
    by (simp add: resolved_fields)
  with atoi cf run show ?thesis by simp
qed

theorem undecodable_port_is_unspecified_witness:
  "strconv_Atoi ''22x'' = (0, Some ErrSyntax) \<and>
   (\<exists>cf. parseSSHConf
       (demoWorld\<lparr>ssh_config_Decode := \<lambda>f. Inr (\<lambda>a k. if k = ''Port'' then Some ''22x''
          else demoConfig a k)\<rparr>) ''myhost'' runConfig0 = Inr cf \<and> port cf = 0 \<and>
      port (defaultFields demoTunnel (overrideFields demoTunnel cf)) = 22) \<and>
   makeRunConfig
       (demoWorld\<lparr>ssh_config_Decode := \<lambda>f. Inr (\<lambda>a k. if k = ''Port'' then Some ''22x''
          else demoConfig a k)\<rparr>) [] demoTunnel =
     makeRunConfig
       (withoutPort (demoWorld\<lparr>ssh_config_Decode := \<lambda>f. Inr (\<lambda>a k. if k = ''Port'' then Some ''22x''
          else demoConfig a k)\<rparr>)) [] demoTunnel"
proof -
  let ?c = "\<lambda>a k. if k = ''Port'' then Some ''22x'' else demoConfig a k"
  let ?w = "demoWorld\<lparr>ssh_config_Decode := \<lambda>f. Inr ?c\<rparr>"
  have 1: "\<not> validDecimal ''22x''"
    by (simp add: validDecimal_def stripSign_def isDigit_def)
  have 2: "decimalValue (leadingDigits ''22x'') \<le> maxUint64"
    by (simp add: decimalValue_def leadingDigits_def stripSign_def isDigit_def digitVal_def
        maxUint64_def)
  have 3: "os_Open ?w (sshConfigPath ?w ''config'') = Inr ''cfg''"
    by (simp add: demoWorld_def sshConfigPath_def)
  have 4: "ssh_config_Decode ?w ''cfg'' = Inr ?c"
    by simp
  have 5: "config_Get ?c (Host demoTunnel) ''Port'' = ''22x''"
    by (simp add: config_Get_def)
  from undecodable_port_is_unspecified [OF 1 2 3 4 5, of "[]"] show ?thesis
    by (simp add: demoTunnel_def)
qed

text \<open>
  The text \<^verbatim>\<open>99999999999999999999x\<close> is not a decimal integer, yet its digits overflow
  before the \<^verbatim>\<open>x\<close> is reached: \<^verbatim>\<open>strconv.Atoi\<close> reports a range error with the largest
  \<^verbatim>\<open>int\<close>, and that value, not 22, is the resolved port.
\<close>

theorem overflowing_port_text_is_kept:
  "\<not> validDecimal ''99999999999999999999x'' \<and>
   strconv_Atoi ''99999999999999999999x'' = (9223372036854775807, Some ErrRange) \<and>
   makeRunConfig
       (demoWorld\<lparr>ssh_config_Decode := \<lambda>f. Inr (\<lambda>a k.
          if k = ''Port'' then Some ''99999999999999999999x'' else demoConfig a k)\<rparr>)
       [] demoTunnel =
     ([parseWarning ''~/.ssh/id_rsa'' ''ssh: no key found''],
      Inr (demoTunnel\<lparr>rc := Some
        \<lparr>localAddress = ''localhost:8080'', remoteAddress = ''db:5432'',
         hostName = ''example.com'', user = ''alice'', port = 9223372036854775807,
         identityFile = [],
         clientConfig = Some \<lparr>cc_User = ''alice'', cc_Auth = [Signer ''ed25519''],
           cc_HostKeyCallback = HostKeyCallback ''/home/u/.ssh/known_hosts'',
           cc_Timeout = sshConnTimeout\<rparr>\<rparr>\<rparr>))"
  by (simp add: demo_eval validDecimal_def stripSign_def)

end
